theory Spec2Isabelle
  imports Main "HOL-Library.Sublist"
begin

section \<open>Python strings\<close>

text \<open>
  Python \<^verbatim>\<open>str\<close> values are character lists. The three string operations the
  sources use are the substring test \<^verbatim>\<open>old in s\<close>, \<^verbatim>\<open>s.replace(old, new, 1)\<close>
  and truthiness (\<^verbatim>\<open>not s\<close> holds for the empty string only).
\<close>

text \<open>\<^verbatim>\<open>sub in s\<close>: some suffix of \<open>s\<close> starts with \<open>sub\<close>.\<close>

fun contains :: "string \<Rightarrow> string \<Rightarrow> bool" where
  "contains sub [] = (sub = [])"
| "contains sub (c # cs) = (prefix sub (c # cs) \<or> contains sub cs)"

text \<open>
  \<^verbatim>\<open>s.replace(old, new, 1)\<close>: scan from the left, substitute at the first
  position where \<open>old\<close> starts, copy the rest.
\<close>

fun replace_first :: "string \<Rightarrow> string \<Rightarrow> string \<Rightarrow> string" where
  "replace_first old new [] = (if old = [] then new else [])"
| "replace_first old new (c # cs) =
     (if prefix old (c # cs) then new @ drop (length old) (c # cs)
      else c # replace_first old new cs)"

text \<open>The number of positions of \<open>s\<close> at which \<open>old\<close> starts.\<close>

fun occurrences :: "string \<Rightarrow> string \<Rightarrow> nat" where
  "occurrences old [] = (if old = [] then 1 else 0)"
| "occurrences old (c # cs) = (if prefix old (c # cs) then 1 else 0) + occurrences old cs"

text \<open>
  \<^verbatim>\<open>repr\<close> of a string that holds no single quote, backslash or control
  character (such are the two constants it is applied to): the text in single quotes.
\<close>

definition py_repr :: "string \<Rightarrow> string" where
  "py_repr s = [CHR 0x27] @ s @ [CHR 0x27]"


section \<open>scripts/patch_pyproject_readme.py\<close>

definition PYPROJECT :: string where
  "PYPROJECT = ''pyproject.toml''"

definition OLD :: string where
  \<open>OLD = ''readme = "README-PYPI.md"''\<close>

definition NEW :: string where
  \<open>NEW = ''readme = "README.md"''\<close>

text \<open>
  The exceptions file input and output raise here: \<^verbatim>\<open>OSError\<close> (with its
  subclasses, as \<^verbatim>\<open>FileNotFoundError\<close> and \<^verbatim>\<open>PermissionError\<close>) carrying its
  text, and \<^verbatim>\<open>UnicodeDecodeError\<close>, a \<^verbatim>\<open>ValueError\<close>, which
  \<^verbatim>\<open>except OSError\<close> does not catch.
\<close>

datatype io_error = OSError string | UnicodeDecodeError string

text \<open>
  How writing the file can fail: \<^verbatim>\<open>open(PYPROJECT, "w")\<close> raises, before the
  file is touched; or the open succeeds, which truncates the file, and the write (or the
  flush when the \<^verbatim>\<open>with\<close> block closes the file) raises after \<open>n\<close> characters
  have reached the file.
\<close>

datatype write_fault = OpenFails string | WriteFails nat string

text \<open>
  The part of the world \<^verbatim>\<open>main\<close> acts on: the text of \<^verbatim>\<open>pyproject.toml\<close>
  as \<^verbatim>\<open>f.read()\<close> returns it (\<open>None\<close> when there is no such file), the fault a
  read or a write meets, if any, and the lines printed to \<^verbatim>\<open>sys.stderr\<close>.
\<close>

record world =
  pyproject :: "string option"
  read_fault :: "io_error option"
  write_fault :: "write_fault option"
  stderr :: "string list"

text \<open>\<^verbatim>\<open>with open(PYPROJECT, "r", encoding="utf-8") as f: content = f.read()\<close>\<close>

definition read_text :: "world \<Rightarrow> io_error + string" where
  "read_text w =
     (case read_fault w of
        Some e \<Rightarrow> Inl e
      | None \<Rightarrow>
          (case pyproject w of
             None \<Rightarrow> Inl (OSError (''[Errno 2] No such file or directory: '' @ py_repr PYPROJECT))
           | Some content \<Rightarrow> Inr content))"

text \<open>\<^verbatim>\<open>with open(PYPROJECT, "w", encoding="utf-8") as f: f.write(content)\<close>\<close>

definition write_text :: "string \<Rightarrow> world \<Rightarrow> io_error option \<times> world" where
  "write_text content w =
     (case write_fault w of
        Some (OpenFails e) \<Rightarrow> (Some (OSError e), w)
      | Some (WriteFails n e) \<Rightarrow> (Some (OSError e), w\<lparr>pyproject := Some (take n content)\<rparr>)
      | None \<Rightarrow> (None, w\<lparr>pyproject := Some content\<rparr>))"

text \<open>\<^verbatim>\<open>print(line, file=sys.stderr)\<close>\<close>

definition print_stderr :: "string \<Rightarrow> world \<Rightarrow> world" where
  "print_stderr line w = w\<lparr>stderr := stderr w @ [line]\<rparr>"

text \<open>
  \<^verbatim>\<open>main\<close>: \<open>Inr rc\<close> is \<^verbatim>\<open>return rc\<close>, \<open>Inl e\<close> is the exception \<open>e\<close>
  leaving \<^verbatim>\<open>main\<close> uncaught.
\<close>

definition main :: "world \<Rightarrow> (io_error + int) \<times> world" where
  "main w =
     (case read_text w of
        Inl (OSError e) \<Rightarrow>
          (Inr 1, print_stderr (''Failed to read '' @ PYPROJECT @ '': '' @ e) w)
      | Inl (UnicodeDecodeError e) \<Rightarrow> (Inl (UnicodeDecodeError e), w)
      | Inr content \<Rightarrow>
          if \<not> contains OLD content then
            (if contains NEW content then (Inr 0, w)
             else (Inr 1, print_stderr (''Neither '' @ py_repr OLD @ '' nor '' @ py_repr NEW
                                          @ '' found in '' @ PYPROJECT) w))
          else
            (case write_text (replace_first OLD NEW content) w of
               (Some (OSError e), w') \<Rightarrow>
                 (Inr 1, print_stderr (''Failed to write '' @ PYPROJECT @ '': '' @ e) w')
             | (Some (UnicodeDecodeError e), w') \<Rightarrow> (Inl (UnicodeDecodeError e), w')
             | (None, w') \<Rightarrow> (Inr 0, w')))"


section \<open>src/outpost_sdk/errors\<close>

text \<open>
  A JSON value: what \<^verbatim>\<open>Any\<close> stands for in the generated models, whose values
  are parsed from response bodies.
\<close>

datatype json = JNull | JBool bool | JNum int | JStr string
  | JArr "json list" | JObj "(string \<times> json) list"

text \<open>\<^verbatim>\<open>httpx.Response\<close>, by the two attributes an error reads.\<close>

record Response =
  status_code :: int
  resp_text :: string

record RateLimitedErrorData =
  message :: "string option"
  additional_properties :: "(string \<times> json) list option"

record NotFoundErrorData =
  message :: "string option"
  additional_properties :: "(string \<times> json) list option"

text \<open>
  An exception instance is its attribute dictionary: \<open>inst name\<close> is \<open>None\<close>
  where \<^verbatim>\<open>hasattr(inst, name)\<close> is false.
\<close>

datatype attr =
    AStr string
  | AOptStr "string option"
  | AResponse Response
  | ANotFoundErrorData NotFoundErrorData
  | ARateLimitedErrorData RateLimitedErrorData

type_synonym pyinstance = "string \<rightharpoonup> attr"

text \<open>\<^verbatim>\<open>str(x)\<close> for \<^verbatim>\<open>x: Optional[str]\<close>: \<^verbatim>\<open>str(None)\<close> is \<^verbatim>\<open>'None'\<close>.\<close>

definition py_str :: "string option \<Rightarrow> string" where
  "py_str x = (case x of None \<Rightarrow> ''None'' | Some s \<Rightarrow> s)"

text \<open>Truthiness of an \<^verbatim>\<open>Optional[str]\<close>: false for \<^verbatim>\<open>None\<close> and for \<^verbatim>\<open>''\<close>.\<close>

definition truthy :: "string option \<Rightarrow> bool" where
  "truthy x = (case x of None \<Rightarrow> False | Some s \<Rightarrow> s \<noteq> [])"

text \<open>
  Modelled from the spec: \<^verbatim>\<open>OutpostError\<close>, the base class of the typed errors
  (\<^verbatim>\<open>outpost_sdk/errors/outposterror.py\<close>), is not among the sources. By the spec
  the errors are thin exception wrappers around HTTP responses: its initialiser keeps
  what it is given, the message, the raw response and the body.
\<close>

definition OutpostError_init :: "string \<Rightarrow> Response \<Rightarrow> string option \<Rightarrow> pyinstance" where
  "OutpostError_init msg raw_response body =
     [''message'' \<mapsto> AStr msg,
      ''raw_response'' \<mapsto> AResponse raw_response,
      ''body'' \<mapsto> AOptStr body]"

text \<open>\<^verbatim>\<open>fallback = body or raw_response.text\<close>\<close>

definition NotFoundError_fallback :: "Response \<Rightarrow> string option \<Rightarrow> string" where
  "NotFoundError_fallback raw_response body =
     (if truthy body then py_str body else resp_text raw_response)"

text \<open>\<^verbatim>\<open>NotFoundError.__init__(self, data, raw_response, body=None)\<close>\<close>

definition NotFoundError_init :: "NotFoundErrorData \<Rightarrow> Response \<Rightarrow> string option \<Rightarrow> pyinstance" where
  "NotFoundError_init data raw_response body =
     (let fallback = NotFoundError_fallback raw_response body;
          msg = (if py_str (NotFoundErrorData.message data) \<noteq> []
                 then py_str (NotFoundErrorData.message data) else fallback)
      in (OutpostError_init msg raw_response body)(''data'' \<mapsto> ANotFoundErrorData data))"

text \<open>
  \<^verbatim>\<open>RateLimitedError.__init__(self, data)\<close>: the class derives from
  \<^verbatim>\<open>Exception\<close>, not from \<^verbatim>\<open>OutpostError\<close>, and its initialiser has the one
  parameter.
\<close>

definition RateLimitedError_init :: "RateLimitedErrorData \<Rightarrow> pyinstance" where
  "RateLimitedError_init data = [''data'' \<mapsto> ARateLimitedErrorData data]"


section \<open>src/outpost_sdk/models\<close>

text \<open>
  A Python value passed to a model: \<^verbatim>\<open>None\<close>, a string, or another object,
  named by a description of it.
\<close>

datatype pyval = PNone | PStr string | PObj string

text \<open>
  The annotation of a field: \<^verbatim>\<open>str\<close>, \<^verbatim>\<open>Any\<close>, \<^verbatim>\<open>Optional[...]\<close>, or
  a type of the SDK declared in another module (\<^verbatim>\<open>TopicsUnion\<close>, \<^verbatim>\<open>AWSSQSConfig\<close>).
\<close>

datatype annotation = Str | Any | Named string | Optional annotation

text \<open>\<^verbatim>\<open>FieldMetadata(path=PathParamMetadata(style=..., explode=...))\<close>, where given.\<close>

datatype metadata = PathParamMetadata string bool

text \<open>
  A field of a model class: its name, annotation and metadata, and its default value
  (\<open>None\<close> for a field declared without one).
\<close>

record field =
  name :: string
  annotation :: annotation
  field_metadata :: "metadata option"
  default :: "pyval option"

datatype validation_error = Missing string | WrongType string

text \<open>
  Whether a value is accepted for an annotation. The types declared in modules that are
  not among the sources are checked by \<open>is_instance\<close>, a parameter.
\<close>

fun conforms :: "(string \<Rightarrow> pyval \<Rightarrow> bool) \<Rightarrow> annotation \<Rightarrow> pyval \<Rightarrow> bool" where
  "conforms is_instance Str v = (case v of PStr s \<Rightarrow> True | PNone \<Rightarrow> False | PObj d \<Rightarrow> False)"
| "conforms is_instance Any v = True"
| "conforms is_instance (Named t) v = is_instance t v"
| "conforms is_instance (Optional a) v = (v = PNone \<or> conforms is_instance a v)"

text \<open>
  Modelled from the spec: \<^verbatim>\<open>outpost_sdk.types.BaseModel\<close> (pydantic's
  \<^verbatim>\<open>BaseModel\<close>) is not among the sources. The models are declarative schema
  mirrors: constructing one from keyword arguments takes each declared field from the
  arguments, or its default when the argument is absent; a field with neither, or with a
  value its annotation refuses, is an error, and all errors are reported together.
\<close>

definition validate_field ::
  "(string \<Rightarrow> pyval \<Rightarrow> bool) \<Rightarrow> (string \<rightharpoonup> pyval) \<Rightarrow> field \<Rightarrow> validation_error + string \<times> pyval" where
  "validate_field is_instance kwargs f =
     (case kwargs (name f) of
        None \<Rightarrow>
          (case default f of
             None \<Rightarrow> Inl (Missing (name f))
           | Some d \<Rightarrow> Inr (name f, d))
      | Some v \<Rightarrow>
          if conforms is_instance (annotation f) v then Inr (name f, v)
          else Inl (WrongType (name f)))"

fun lefts :: "('a + 'b) list \<Rightarrow> 'a list" where
  "lefts [] = []"
| "lefts (Inl a # rs) = a # lefts rs"
| "lefts (Inr b # rs) = lefts rs"

fun rights :: "('a + 'b) list \<Rightarrow> 'b list" where
  "rights [] = []"
| "rights (Inl a # rs) = rights rs"
| "rights (Inr b # rs) = b # rights rs"

definition BaseModel_init ::
  "(string \<Rightarrow> pyval \<Rightarrow> bool) \<Rightarrow> field list \<Rightarrow> (string \<rightharpoonup> pyval)
     \<Rightarrow> validation_error list + (string \<times> pyval) list" where
  "BaseModel_init is_instance model_fields kwargs =
     (let results = map (validate_field is_instance kwargs) model_fields
      in if lefts results = [] then Inr (rights results) else Inl (lefts results))"

definition AWSKinesisConfig :: "field list" where
  "AWSKinesisConfig =
     [\<lparr>name = ''stream_name'', annotation = Str, field_metadata = None, default = None\<rparr>,
      \<lparr>name = ''region'', annotation = Str, field_metadata = None, default = None\<rparr>,
      \<lparr>name = ''endpoint'', annotation = Optional Str, field_metadata = None,
        default = Some PNone\<rparr>,
      \<lparr>name = ''partition_key_template'', annotation = Optional Str, field_metadata = None,
        default = Some PNone\<rparr>]"

definition DestinationUpdateAWSSQS :: "field list" where
  "DestinationUpdateAWSSQS =
     [\<lparr>name = ''topics'', annotation = Optional (Named ''TopicsUnion''), field_metadata = None,
        default = Some PNone\<rparr>,
      \<lparr>name = ''config'', annotation = Optional (Named ''AWSSQSConfig''), field_metadata = None,
        default = Some PNone\<rparr>,
      \<lparr>name = ''credentials'', annotation = Optional (Named ''AWSSQSCredentials''),
        field_metadata = None, default = Some PNone\<rparr>]"

definition DestinationUpdateHookdeck :: "field list" where
  "DestinationUpdateHookdeck =
     [\<lparr>name = ''topics'', annotation = Optional (Named ''TopicsUnion''), field_metadata = None,
        default = Some PNone\<rparr>,
      \<lparr>name = ''config'', annotation = Optional Any, field_metadata = None,
        default = Some PNone\<rparr>,
      \<lparr>name = ''credentials'', annotation = Optional (Named ''HookdeckCredentials''),
        field_metadata = None, default = Some PNone\<rparr>]"

definition GetTenantGlobals :: "field list" where
  "GetTenantGlobals =
     [\<lparr>name = ''tenant_id'', annotation = Optional Str,
        field_metadata = Some (PathParamMetadata ''simple'' False), default = Some PNone\<rparr>]"

definition GetTenantRequest :: "field list" where
  "GetTenantRequest =
     [\<lparr>name = ''tenant_id'', annotation = Optional Str,
        field_metadata = Some (PathParamMetadata ''simple'' False), default = Some PNone\<rparr>]"


section \<open>examples/sdk-python/example/auth.py\<close>

text \<open>
  \<^verbatim>\<open>models.Security\<close>, \<^verbatim>\<open>SDKConfiguration\<close> and the client \<^verbatim>\<open>Outpost\<close>,
  by the fields the script sets and reads.
\<close>

record Security =
  admin_api_key :: "string option"
  tenant_jwt :: "string option"

record SDKConfiguration =
  security :: Security
  server_url :: string

record Outpost =
  sdk_configuration :: SDKConfiguration

text \<open>
  A raised exception with its \<^verbatim>\<open>str\<close>: an instance of \<^verbatim>\<open>Exception\<close>, or of
  \<^verbatim>\<open>BaseException\<close> only (\<^verbatim>\<open>KeyboardInterrupt\<close>, \<^verbatim>\<open>SystemExit\<close>), which
  \<^verbatim>\<open>except Exception\<close> lets pass.
\<close>

datatype exn = Exception string | BaseException string

text \<open>
  What an SDK call returns, by what the script does with it: \<^verbatim>\<open>print\<close> shows it,
  \<^verbatim>\<open>if\<close> tests its truth, and \<^verbatim>\<open>hasattr(res, "token")\<close> and \<^verbatim>\<open>res.token\<close>
  read its attribute \<^verbatim>\<open>token\<close> (\<open>None\<close> when it has none, \<open>Some None\<close> when the
  attribute is \<^verbatim>\<open>None\<close>).
\<close>

record result =
  shown :: string
  is_truthy :: bool
  token :: "string option option"

text \<open>
  The SDK is not among the sources; its behaviour is a parameter: whether constructing a
  client raises, and what each of the three calls gives on a client.
\<close>

record sdk =
  Outpost_init :: "Security \<Rightarrow> string \<Rightarrow> exn option"
  health_check :: "Outpost \<Rightarrow> exn + result"
  destinations_list :: "Outpost \<Rightarrow> string option \<Rightarrow> exn + result"
  tenants_get_token :: "Outpost \<Rightarrow> string \<Rightarrow> exn + result"

text \<open>What the script does, in order: lines printed, clients made, calls made.\<close>

datatype event =
    Print string
  | Construct Security string
  | Enter Outpost
  | Exit Outpost
  | HealthCheck Outpost
  | DestinationsList Outpost "string option"
  | TenantsGetToken Outpost string

text \<open>
  A block runs to a pair: the events it caused, and the exception that left it
  (\<open>None\<close> when it ended normally).
\<close>

definition emit :: "event list \<Rightarrow> event list \<times> 'a \<Rightarrow> event list \<times> 'a" where
  "emit es r = (es @ fst r, snd r)"

text \<open>\<^verbatim>\<open>except Exception as e: print(f"{label}{e}")\<close> around a block.\<close>

definition except_Exception :: "string \<Rightarrow> event list \<times> exn option \<Rightarrow> event list \<times> exn option" where
  "except_Exception label r =
     (case snd r of
        Some (Exception m) \<Rightarrow> (fst r @ [Print (label @ m)], None)
      | Some (BaseException m) \<Rightarrow> r
      | None \<Rightarrow> r)"

text \<open>\<^verbatim>\<open>with Outpost(security=sec, server_url=url) as client: body\<close>\<close>

definition with_Outpost ::
  "sdk \<Rightarrow> Security \<Rightarrow> string \<Rightarrow> (Outpost \<Rightarrow> event list \<times> exn option) \<Rightarrow> event list \<times> exn option" where
  "with_Outpost s sec url body =
     emit [Construct sec url]
       (case Outpost_init s sec url of
          Some e \<Rightarrow> ([], Some e)
        | None \<Rightarrow>
            (let client = \<lparr>sdk_configuration = \<lparr>security = sec, server_url = url\<rparr>\<rparr>;
                 r = body client
             in ([Enter client] @ fst r @ [Exit client], snd r)))"

definition with_jwt :: "sdk \<Rightarrow> Outpost \<Rightarrow> string \<Rightarrow> event list \<times> exn option" where
  "with_jwt s outpost jwt =
     emit [Print ''--- Running with Tenant JWT ---'']
       (except_Exception ''Error listing destinations with JWT: ''
          (emit [DestinationsList outpost None]
             (case destinations_list s outpost None of
                Inl e \<Rightarrow> ([], Some e)
              | Inr destinations_res \<Rightarrow>
                  ([Print ''Destinations listed successfully using JWT:'',
                    Print (shown destinations_res)], None))))"

definition with_admin_api_key :: "sdk \<Rightarrow> Outpost \<Rightarrow> string \<Rightarrow> event list \<times> exn option" where
  "with_admin_api_key s outpost tenant_id =
     emit [Print ''--- Running with Admin API Key ---'']
       (except_Exception ''Error during admin operations: ''
          (emit [HealthCheck outpost]
             (case health_check s outpost of
                Inl e \<Rightarrow> ([], Some e)
              | Inr health_res \<Rightarrow>
                  emit [Print ''Health check result:'', Print (shown health_res),
                        DestinationsList outpost (Some tenant_id)]
                    (case destinations_list s outpost (Some tenant_id) of
                       Inl e \<Rightarrow> ([], Some e)
                     | Inr destinations_res \<Rightarrow>
                         emit [Print (''Destinations listed successfully using Admin Key for tenant ''
                                       @ tenant_id @ '':''),
                               Print (shown destinations_res),
                               TenantsGetToken outpost tenant_id]
                           (case tenants_get_token s outpost tenant_id of
                              Inl e \<Rightarrow> ([], Some e)
                            | Inr token_res \<Rightarrow>
                                emit [Print (''Tenant token obtained for tenant '' @ tenant_id @ '':''),
                                      Print (shown token_res)]
                                  (if is_truthy token_res \<and> token token_res \<noteq> None
                                      \<and> truthy (the (token token_res))
                                   then
                                     with_Outpost s
                                       \<lparr>admin_api_key = None, tenant_jwt = the (token token_res)\<rparr>
                                       (server_url (sdk_configuration outpost))
                                       (\<lambda>jwt_outpost.
                                          with_jwt s jwt_outpost (the (the (token token_res))))
                                   else ([Print ''Could not obtain tenant token.''], None)))))))"

text \<open>How \<^verbatim>\<open>run\<close> ends: it returns, \<^verbatim>\<open>sys.exit\<close> leaves it, or an exception does.\<close>

datatype outcome = Returned | SystemExit int | Raised exn

text \<open>
  \<^verbatim>\<open>run\<close>. \<open>load_dotenv\<close> is what the call of that name makes of the process
  environment; \<^verbatim>\<open>os.getenv(k)\<close> is then the application of the environment to \<open>k\<close>.
\<close>

definition run ::
  "sdk \<Rightarrow> ((string \<rightharpoonup> string) \<Rightarrow> (string \<rightharpoonup> string)) \<Rightarrow> (string \<rightharpoonup> string)
     \<Rightarrow> event list \<times> outcome" where
  "run s load_dotenv environ =
     (let getenv = load_dotenv environ;
          admin_api_key = getenv ''ADMIN_API_KEY'';
          tenant_id = getenv ''TENANT_ID'';
          server_url = getenv ''SERVER_URL''
      in if \<not> truthy admin_api_key then
           ([Print ''Error: ADMIN_API_KEY not set.''], SystemExit 1)
         else if \<not> truthy tenant_id then
           ([Print ''Error: TENANT_ID not set.''], SystemExit 1)
         else if \<not> truthy server_url then
           ([Print ''Error: SERVER_URL not set.''], SystemExit 1)
         else
           (let api_server_url = the server_url @ ''/api/v1'';
                security_config = \<lparr>admin_api_key = admin_api_key, tenant_jwt = None\<rparr>;
                r = with_Outpost s security_config api_server_url
                      (\<lambda>outpost. with_admin_api_key s outpost (the tenant_id))
            in case snd r of
                 Some e \<Rightarrow> (fst r, Raised e)
               | None \<Rightarrow> (fst r @ [Print ''--- Example finished ---''], Returned)))"


section \<open>Substrings and replacement\<close>

lemma contains_prefix: "prefix sub s \<Longrightarrow> contains sub s"
  by (cases s) auto

lemma contains_iff_drop: "contains sub s \<longleftrightarrow> (\<exists>j\<le>length s. prefix sub (drop j s))"
proof (induction s)
  case Nil
  then show ?case by simp
next
  case (Cons c cs)
  show ?case
  proof
    assume "contains sub (c # cs)"
    then consider "prefix sub (c # cs)" | "contains sub cs" by auto
    then show "\<exists>j\<le>length (c # cs). prefix sub (drop j (c # cs))"
    proof cases
      case 1
      then have "prefix sub (drop 0 (c # cs))" by simp
      then show ?thesis by blast
    next
      case 2
      with Cons.IH obtain j where "j \<le> length cs" "prefix sub (drop j cs)" by blast
      then have "Suc j \<le> length (c # cs)" "prefix sub (drop (Suc j) (c # cs))" by simp_all
      then show ?thesis by blast
    qed
  next
    assume "\<exists>j\<le>length (c # cs). prefix sub (drop j (c # cs))"
    then obtain j where j: "j \<le> length (c # cs)" "prefix sub (drop j (c # cs))" by blast
    show "contains sub (c # cs)"
    proof (cases j)
      case 0
      with j show ?thesis by simp
    next
      case (Suc k)
      with j have "k \<le> length cs" "prefix sub (drop k cs)" by simp_all
      with Cons.IH have "contains sub cs" by blast
      then show ?thesis by simp
    qed
  qed
qed

lemma contains_drop: "contains sub (drop n s) \<Longrightarrow> contains sub s"
proof (induction s arbitrary: n)
  case Nil
  then show ?case by simp
next
  case (Cons c cs)
  then show ?case by (cases n) auto
qed

lemma occurrences_0_iff: "occurrences old s = 0 \<longleftrightarrow> \<not> contains old s"
  by (induction s) auto


lemma replace_first_absent: "\<not> contains old s \<Longrightarrow> replace_first old new s = s"
  by (induction s) auto

lemma contains_NEW_append: "contains OLD (NEW @ post) = contains OLD post"
  by (simp add: NEW_def OLD_def)

lemma OLD_over_NEW:
  assumes "prefix OLD (p @ NEW @ post)" and "p \<noteq> []"
  shows "prefix OLD p"
proof -
  from assms(1) consider "prefix OLD p" | us where "OLD = p @ us" "prefix us (NEW @ post)"
    by (auto simp: prefix_append)
  then show ?thesis
  proof cases
    case 1
    then show ?thesis .
  next
    case 2
    show ?thesis
    proof (cases us)
      case Nil
      with 2 show ?thesis by simp
    next
      case (Cons u us')
      with 2(2) have "u = CHR ''r''" by (simp add: NEW_def)
      moreover from assms(2) obtain a p' where "p = a # p'" by (cases p) auto
      ultimately have "p @ us = a # p' @ CHR ''r'' # us'" using Cons by simp
      with 2(1) have "tl OLD = tl (a # p' @ CHR ''r'' # us')" by (rule_tac arg_cong) simp
      then have "tl OLD = p' @ CHR ''r'' # us'" by (simp only: list.sel)
      then have "CHR ''r'' \<in> set (tl OLD)" by simp
      then show ?thesis by (simp add: OLD_def)
    qed
  qed
qed

lemma OLD_not_created:
  "prefix OLD (p @ replace_first OLD NEW s) \<Longrightarrow> p \<noteq> [] \<Longrightarrow> contains OLD s \<Longrightarrow> prefix OLD (p @ s)"
proof (induction s arbitrary: p)
  case Nil
  then show ?case by (simp add: OLD_def)
next
  case (Cons c cs)
  show ?case
  proof (cases "prefix OLD (c # cs)")
    case True
    with Cons.prems(1) have "prefix OLD (p @ NEW @ drop (length OLD) (c # cs))" by simp
    from this Cons.prems(2) have "prefix OLD p" by (rule OLD_over_NEW)
    then show ?thesis by (rule prefix_prefix)
  next
    case False
    with Cons.prems have "prefix OLD ((p @ [c]) @ replace_first OLD NEW cs)" "contains OLD cs" by simp_all
    with Cons.IH [of "p @ [c]"] show ?thesis by simp
  qed
qed

lemma replace_first_removes_OLD:
  "occurrences OLD s \<le> 1 \<Longrightarrow> contains OLD s \<Longrightarrow> \<not> contains OLD (replace_first OLD NEW s)"
proof (induction s)
  case Nil
  then show ?case by (simp add: OLD_def)
next
  case (Cons c cs)
  show ?case
  proof (cases "prefix OLD (c # cs)")
    case True
    with Cons.prems(1) have "occurrences OLD cs = 0" by simp
    then have no: "\<not> contains OLD cs" by (simp add: occurrences_0_iff)
    have "length OLD = Suc (length OLD - 1)" by (simp add: OLD_def)
    then have "drop (length OLD) (c # cs) = drop (length OLD - 1) cs" by (metis drop_Suc_Cons)
    with no have "\<not> contains OLD (drop (length OLD) (c # cs))" by (auto dest: contains_drop)
    with True show ?thesis by (simp add: contains_NEW_append)
  next
    case False
    with Cons.prems have c: "contains OLD cs" and o: "occurrences OLD cs \<le> 1" by simp_all
    with Cons.IH have "\<not> contains OLD (replace_first OLD NEW cs)" by blast
    moreover have "\<not> prefix OLD (c # replace_first OLD NEW cs)"
    proof
      assume "prefix OLD (c # replace_first OLD NEW cs)"
      then have "prefix OLD ([c] @ replace_first OLD NEW cs)" by simp
      from OLD_not_created [OF this _ c] have "prefix OLD ([c] @ cs)" by simp
      with False show False by simp
    qed
    ultimately show ?thesis using False by simp
  qed
qed

lemma replace_first_gives_NEW: "contains OLD s \<Longrightarrow> contains NEW (replace_first OLD NEW s)"
proof (induction s)
  case Nil
  then show ?case by (simp add: OLD_def)
next
  case (Cons c cs)
  then show ?case by (auto intro: contains_prefix)
qed


section \<open>The patch script\<close>

lemma read_text_Inr: "read_text w = Inr c \<longleftrightarrow> read_fault w = None \<and> pyproject w = Some c"
  by (auto simp: read_text_def split: option.splits)

lemma main_success_path:
  assumes "read_text w = Inr content" "contains OLD content" "write_fault w = None"
  shows "main w = (Inr 0, w\<lparr>pyproject := Some (replace_first OLD NEW content)\<rparr>)"
  using assms by (simp add: main_def write_text_def)



text \<open>
  C3, as amended. \<^verbatim>\<open>main\<close> returns 1 and leaves the file as it was when reading
  raises \<^verbatim>\<open>OSError\<close>, when the text holds neither line, and when opening the file
  for writing raises \<^verbatim>\<open>OSError\<close>; it returns 0 and writes nothing when only the new
  line is there. A \<^verbatim>\<open>UnicodeDecodeError\<close> of the read is not caught: it leaves
  \<^verbatim>\<open>main\<close>, the file untouched. When the write fails after the file was opened,
  \<^verbatim>\<open>main\<close> returns 1 and the file holds only what was written before the failure.
  So a return of 1 leaves the file unchanged except in that last case.
\<close>

theorem main_failure_modes:
  "(read_text w = Inl (OSError e) \<longrightarrow>
      fst (main w) = Inr 1 \<and> pyproject (snd (main w)) = pyproject w)
   \<and> (read_text w = Inl (UnicodeDecodeError e) \<longrightarrow> main w = (Inl (UnicodeDecodeError e), w))
   \<and> (read_text w = Inr c \<and> \<not> contains OLD c \<and> \<not> contains NEW c \<longrightarrow>
      fst (main w) = Inr 1 \<and> pyproject (snd (main w)) = pyproject w)
   \<and> (read_text w = Inr c \<and> \<not> contains OLD c \<and> contains NEW c \<longrightarrow> main w = (Inr 0, w))
   \<and> (read_text w = Inr c \<and> contains OLD c \<and> write_fault w = Some (OpenFails e) \<longrightarrow>
      fst (main w) = Inr 1 \<and> pyproject (snd (main w)) = pyproject w)
   \<and> (read_text w = Inr c \<and> contains OLD c \<and> write_fault w = Some (WriteFails n e) \<longrightarrow>
      fst (main w) = Inr 1
      \<and> pyproject (snd (main w)) = Some (take n (replace_first OLD NEW c)))
   \<and> (fst (main w) = Inr 1 \<longrightarrow>
      pyproject (snd (main w)) = pyproject w \<or> (\<exists>k m. write_fault w = Some (WriteFails k m)))"
  by (auto simp: main_def write_text_def print_stderr_def
           split: sum.splits io_error.splits option.splits write_fault.splits prod.splits)

theorem main_failure_modes_witness:
  \<open>(read_text \<lparr>pyproject = None, read_fault = None, write_fault = None, stderr = []\<rparr>
       = Inl (OSError (''[Errno 2] No such file or directory: '' @ py_repr PYPROJECT))
     \<and> fst (main \<lparr>pyproject = None, read_fault = None, write_fault = None, stderr = []\<rparr>) = Inr 1
     \<and> pyproject (snd (main \<lparr>pyproject = None, read_fault = None, write_fault = None,
           stderr = []\<rparr>)) = None)
   \<and> (read_text \<lparr>pyproject = Some ''x'', read_fault = Some (UnicodeDecodeError ''bad byte''),
         write_fault = None, stderr = []\<rparr> = Inl (UnicodeDecodeError ''bad byte'')
     \<and> main \<lparr>pyproject = Some ''x'', read_fault = Some (UnicodeDecodeError ''bad byte''),
         write_fault = None, stderr = []\<rparr>
       = (Inl (UnicodeDecodeError ''bad byte''),
          \<lparr>pyproject = Some ''x'', read_fault = Some (UnicodeDecodeError ''bad byte''),
           write_fault = None, stderr = []\<rparr>))
   \<and> (\<not> contains OLD ''name = "x"'' \<and> \<not> contains NEW ''name = "x"''
     \<and> fst (main \<lparr>pyproject = Some ''name = "x"'', read_fault = None, write_fault = None,
           stderr = []\<rparr>) = Inr 1
     \<and> pyproject (snd (main \<lparr>pyproject = Some ''name = "x"'', read_fault = None,
           write_fault = None, stderr = []\<rparr>)) = Some ''name = "x"'')
   \<and> (\<not> contains OLD ''readme = "README.md"'' \<and> contains NEW ''readme = "README.md"''
     \<and> main \<lparr>pyproject = Some ''readme = "README.md"'', read_fault = None, write_fault = None,
           stderr = []\<rparr>
       = (Inr 0, \<lparr>pyproject = Some ''readme = "README.md"'', read_fault = None,
           write_fault = None, stderr = []\<rparr>))
   \<and> (contains OLD ''readme = "README-PYPI.md"''
     \<and> fst (main \<lparr>pyproject = Some ''readme = "README-PYPI.md"'', read_fault = None,
           write_fault = Some (OpenFails ''[Errno 13] Permission denied''), stderr = []\<rparr>) = Inr 1
     \<and> pyproject (snd (main \<lparr>pyproject = Some ''readme = "README-PYPI.md"'', read_fault = None,
           write_fault = Some (OpenFails ''[Errno 13] Permission denied''), stderr = []\<rparr>))
       = Some ''readme = "README-PYPI.md"'')
   \<and> (fst (main \<lparr>pyproject = Some ''readme = "README-PYPI.md"'', read_fault = None,
           write_fault = Some (WriteFails 7 ''[Errno 28] No space left on device''),
           stderr = []\<rparr>) = Inr 1
     \<and> pyproject (snd (main \<lparr>pyproject = Some ''readme = "README-PYPI.md"'', read_fault = None,
           write_fault = Some (WriteFails 7 ''[Errno 28] No space left on device''),
           stderr = []\<rparr>))
       = Some (take 7 (replace_first OLD NEW ''readme = "README-PYPI.md"'')))\<close>
proof -
  let ?w1 = "\<lparr>pyproject = None, read_fault = None, write_fault = None, stderr = []\<rparr>"
  let ?w2 = "\<lparr>pyproject = Some ''x'', read_fault = Some (UnicodeDecodeError ''bad byte''),
         write_fault = None, stderr = []\<rparr>"
  let ?w3 = \<open>\<lparr>pyproject = Some ''name = "x"'', read_fault = None, write_fault = None,
           stderr = []\<rparr>\<close>
  let ?w4 = \<open>\<lparr>pyproject = Some ''readme = "README.md"'', read_fault = None, write_fault = None,
           stderr = []\<rparr>\<close>
  let ?w5 = \<open>\<lparr>pyproject = Some ''readme = "README-PYPI.md"'', read_fault = None,
           write_fault = Some (OpenFails ''[Errno 13] Permission denied''), stderr = []\<rparr>\<close>
  let ?w6 = \<open>\<lparr>pyproject = Some ''readme = "README-PYPI.md"'', read_fault = None,
           write_fault = Some (WriteFails 7 ''[Errno 28] No space left on device''),
           stderr = []\<rparr>\<close>
  have h1: \<open>read_text ?w1 = Inl (OSError (''[Errno 2] No such file or directory: '' @ py_repr PYPROJECT))\<close>
    by (simp add: read_text_def)
  have h2: "read_text ?w2 = Inl (UnicodeDecodeError ''bad byte'')"
    by (simp add: read_text_def)
  have h3: \<open>read_text ?w3 = Inr ''name = "x"''\<close>
    \<open>\<not> contains OLD ''name = "x"''\<close> \<open>\<not> contains NEW ''name = "x"''\<close>
    by (simp_all add: read_text_def OLD_def NEW_def)
  have h4: \<open>read_text ?w4 = Inr ''readme = "README.md"''\<close>
    \<open>\<not> contains OLD ''readme = "README.md"''\<close> \<open>contains NEW ''readme = "README.md"''\<close>
    by (simp_all add: read_text_def OLD_def NEW_def)
  have h5: \<open>read_text ?w5 = Inr ''readme = "README-PYPI.md"''\<close>
    \<open>contains OLD ''readme = "README-PYPI.md"''\<close>
    \<open>write_fault ?w5 = Some (OpenFails ''[Errno 13] Permission denied'')\<close>
    by (simp_all add: read_text_def OLD_def)
  have h6: \<open>read_text ?w6 = Inr ''readme = "README-PYPI.md"''\<close>
    \<open>write_fault ?w6 = Some (WriteFails 7 ''[Errno 28] No space left on device'')\<close>
    by (simp_all add: read_text_def)
  note m = main_failure_modes
  from m [of ?w1] h1 have c1: "fst (main ?w1) = Inr 1 \<and> pyproject (snd (main ?w1)) = pyproject ?w1"
    by blast
  from m [of ?w2 "''bad byte''"] h2
  have c2: "main ?w2 = (Inl (UnicodeDecodeError ''bad byte''), ?w2)" by blast
  from m [of ?w3 _ \<open>''name = "x"''\<close>] h3
  have c3: "fst (main ?w3) = Inr 1 \<and> pyproject (snd (main ?w3)) = pyproject ?w3" by blast
  from m [of ?w4 _ \<open>''readme = "README.md"''\<close>] h4
  have c4: "main ?w4 = (Inr 0, ?w4)" by blast
  from m [of ?w5 "''[Errno 13] Permission denied''" \<open>''readme = "README-PYPI.md"''\<close>] h5
  have c5: "fst (main ?w5) = Inr 1 \<and> pyproject (snd (main ?w5)) = pyproject ?w5" by blast
  from m [of ?w6 "''[Errno 28] No space left on device''" \<open>''readme = "README-PYPI.md"''\<close> 7] h5(2) h6
  have c6: \<open>fst (main ?w6) = Inr 1 \<and> pyproject (snd (main ?w6))
     = Some (take 7 (replace_first OLD NEW ''readme = "README-PYPI.md"''))\<close> by blast
  from h1 h2 h3 h4 h5 c1 c2 c3 c4 c5 c6 show ?thesis by simp
qed

text \<open>
  The claim as first stated fails: a write that fails after the open has truncated the
  file returns 1 with the file emptied, and a file that is not UTF-8 makes \<^verbatim>\<open>main\<close>
  raise instead of returning 1.
\<close>

theorem main_failure_modifies_counterexample:
  \<open>main \<lparr>pyproject = Some ''readme = "README-PYPI.md"'', read_fault = None,
        write_fault = Some (WriteFails 0 ''[Errno 28] No space left on device''), stderr = []\<rparr>
     = (Inr 1, \<lparr>pyproject = Some '''', read_fault = None,
        write_fault = Some (WriteFails 0 ''[Errno 28] No space left on device''),
        stderr = [''Failed to write pyproject.toml: [Errno 28] No space left on device'']\<rparr>)
   \<and> main \<lparr>pyproject = Some ''readme = "README-PYPI.md"'',
        read_fault = Some (UnicodeDecodeError ''invalid start byte''),
        write_fault = None, stderr = []\<rparr>
     = (Inl (UnicodeDecodeError ''invalid start byte''),
        \<lparr>pyproject = Some ''readme = "README-PYPI.md"'',
         read_fault = Some (UnicodeDecodeError ''invalid start byte''),
         write_fault = None, stderr = []\<rparr>)\<close>
  by (simp add: main_def read_text_def write_text_def print_stderr_def OLD_def NEW_def PYPROJECT_def)

text \<open>
  C9. When the text holds \<^verbatim>\<open>OLD\<close> at most once and a first run of \<^verbatim>\<open>main\<close>
  has returned 0, a second run on what the first left returns 0 and changes nothing.
\<close>

theorem main_idempotent:
  assumes "pyproject w = Some content" and "occurrences OLD content \<le> 1"
    and "main w = (Inr 0, w')"
  shows "main w' = (Inr 0, w')"
proof -
  from assms(3) have rf: "read_fault w = None"
    by (auto simp: main_def read_text_def print_stderr_def
             split: option.splits io_error.splits sum.splits if_splits)
  with assms(1) have r: "read_text w = Inr content" by (simp add: read_text_Inr)
  show ?thesis
  proof (cases "contains OLD content")
    case True
    with assms(3) r have wf: "write_fault w = None"
      by (auto simp: main_def write_text_def
               split: option.splits write_fault.splits)
    let ?c = "replace_first OLD NEW content"
    from main_success_path [OF r True wf] assms(3)
    have w': "w' = w\<lparr>pyproject := Some ?c\<rparr>" by simp
    with rf have "read_text w' = Inr ?c" by (simp add: read_text_Inr)
    moreover from assms(2) True have "\<not> contains OLD ?c" by (rule replace_first_removes_OLD)
    moreover from True have "contains NEW ?c" by (rule replace_first_gives_NEW)
    ultimately show ?thesis by (simp add: main_def)
  next
    case False
    with assms(3) r have "w' = w" by (auto simp: main_def split: if_splits)
    with assms(3) show ?thesis by simp
  qed
qed

theorem main_idempotent_witness:
  \<open>pyproject \<lparr>pyproject = Some ''a readme = "README-PYPI.md" b'', read_fault = None,
       write_fault = None, stderr = []\<rparr> = Some ''a readme = "README-PYPI.md" b''
   \<and> occurrences OLD ''a readme = "README-PYPI.md" b'' \<le> 1
   \<and> main \<lparr>pyproject = Some ''a readme = "README-PYPI.md" b'', read_fault = None,
       write_fault = None, stderr = []\<rparr>
     = (Inr 0, \<lparr>pyproject = Some ''a readme = "README.md" b'', read_fault = None,
       write_fault = None, stderr = []\<rparr>)
   \<and> main \<lparr>pyproject = Some ''a readme = "README.md" b'', read_fault = None,
       write_fault = None, stderr = []\<rparr>
     = (Inr 0, \<lparr>pyproject = Some ''a readme = "README.md" b'', read_fault = None,
       write_fault = None, stderr = []\<rparr>)\<close>
proof -
  let ?c = \<open>''a readme = "README-PYPI.md" b''\<close>
  let ?w = "\<lparr>pyproject = Some ?c, read_fault = None, write_fault = None, stderr = []\<rparr>"
  let ?w' = \<open>\<lparr>pyproject = Some ''a readme = "README.md" b'', read_fault = None,
       write_fault = None, stderr = []\<rparr>\<close>
  have h1: "pyproject ?w = Some ?c" by simp
  have h2: "occurrences OLD ?c \<le> 1" by (simp add: OLD_def)
  have h3: "main ?w = (Inr 0, ?w')"
    by (simp add: main_def read_text_def write_text_def OLD_def NEW_def)
  from main_idempotent [OF h1 h2 h3] h1 h2 h3 show ?thesis by blast
qed


section \<open>The typed errors\<close>

text \<open>
  C1, as amended. Constructing a \<^verbatim>\<open>NotFoundError\<close> takes the parsed data, the raw
  HTTP response and the body; the instance holds the response (kept by the base
  initialiser) and the data. Constructing a \<^verbatim>\<open>RateLimitedError\<close> takes the parsed
  data only, and the instance holds the data and nothing else.
\<close>

theorem typed_errors_stored_attributes:
  "NotFoundError_init d r b ''raw_response'' = Some (AResponse r)
   \<and> NotFoundError_init d r b ''data'' = Some (ANotFoundErrorData d)
   \<and> RateLimitedError_init rd ''data'' = Some (ARateLimitedErrorData rd)
   \<and> dom (RateLimitedError_init rd) = {''data''}"
  by (simp add: NotFoundError_init_def OutpostError_init_def RateLimitedError_init_def Let_def)

text \<open>
  The claim as first stated fails for \<^verbatim>\<open>RateLimitedError\<close>: an instance has no
  attribute \<^verbatim>\<open>raw_response\<close>.
\<close>

theorem RateLimitedError_no_raw_response_counterexample:
  "RateLimitedError_init
     \<lparr>RateLimitedErrorData.message = Some ''Too many requests'',
      RateLimitedErrorData.additional_properties = None\<rparr> ''raw_response'' = None"
  by (simp add: RateLimitedError_init_def)

text \<open>
  C8. The message of a \<^verbatim>\<open>NotFoundError\<close> is the fallback when
  \<^verbatim>\<open>str(data.message)\<close> is empty, which is when \<^verbatim>\<open>data.message\<close> is the empty
  string, and \<^verbatim>\<open>str(data.message)\<close> itself otherwise; for a message of \<^verbatim>\<open>None\<close>
  it is the text \<^verbatim>\<open>None\<close>. The fallback is the body when the body is truthy and
  the text of the raw response otherwise.
\<close>

theorem NotFoundError_message:
  "(py_str (NotFoundErrorData.message d) = [] \<longleftrightarrow> NotFoundErrorData.message d = Some [])
   \<and> (py_str (NotFoundErrorData.message d) = [] \<longrightarrow>
        NotFoundError_init d r b ''message'' = Some (AStr (NotFoundError_fallback r b)))
   \<and> (py_str (NotFoundErrorData.message d) \<noteq> [] \<longrightarrow>
        NotFoundError_init d r b ''message'' = Some (AStr (py_str (NotFoundErrorData.message d))))
   \<and> (NotFoundErrorData.message d = None \<longrightarrow>
        NotFoundError_init d r b ''message'' = Some (AStr ''None''))
   \<and> (truthy b \<longrightarrow> Some (NotFoundError_fallback r b) = b)
   \<and> (\<not> truthy b \<longrightarrow> NotFoundError_fallback r b = resp_text r)"
  by (auto simp: NotFoundError_init_def OutpostError_init_def NotFoundError_fallback_def
        py_str_def truthy_def Let_def split: option.splits)

theorem NotFoundError_message_witness:
  "py_str (NotFoundErrorData.message \<lparr>message = Some '''', additional_properties = None\<rparr>) = []
   \<and> truthy (Some ''gone'')
   \<and> NotFoundError_init \<lparr>message = Some '''', additional_properties = None\<rparr>
        \<lparr>status_code = 404, resp_text = ''not found''\<rparr> (Some ''gone'') ''message''
       = Some (AStr ''gone'')
   \<and> \<not> truthy None
   \<and> NotFoundError_init \<lparr>message = Some '''', additional_properties = None\<rparr>
        \<lparr>status_code = 404, resp_text = ''not found''\<rparr> None ''message''
       = Some (AStr ''not found'')
   \<and> NotFoundErrorData.message \<lparr>message = None, additional_properties = None\<rparr> = None
   \<and> NotFoundError_init \<lparr>message = None, additional_properties = None\<rparr>
        \<lparr>status_code = 404, resp_text = ''not found''\<rparr> (Some ''gone'') ''message''
       = Some (AStr ''None'')
   \<and> py_str (NotFoundErrorData.message \<lparr>message = Some ''no such tenant'',
         additional_properties = None\<rparr>) \<noteq> []
   \<and> NotFoundError_init \<lparr>message = Some ''no such tenant'', additional_properties = None\<rparr>
        \<lparr>status_code = 404, resp_text = ''not found''\<rparr> (Some ''gone'') ''message''
       = Some (AStr ''no such tenant'')"
proof -
  let ?r = "\<lparr>status_code = 404, resp_text = ''not found''\<rparr>"
  let ?e = "\<lparr>message = Some '''', additional_properties = None\<rparr>"
  let ?n = "\<lparr>message = None, additional_properties = None\<rparr> :: NotFoundErrorData"
  let ?m = "\<lparr>message = Some ''no such tenant'', additional_properties = None\<rparr>"
  have h1: "py_str (NotFoundErrorData.message ?e) = []" by (simp add: py_str_def)
  have h2: "truthy (Some ''gone'')" by (simp add: truthy_def)
  have h3: "\<not> truthy None" by (simp add: truthy_def)
  have h4: "NotFoundErrorData.message ?n = None" by simp
  have h5: "py_str (NotFoundErrorData.message ?m) \<noteq> []" by (simp add: py_str_def)
  from NotFoundError_message [of ?e ?r "Some ''gone''"] h1 h2
  have c1: "NotFoundError_init ?e ?r (Some ''gone'') ''message'' = Some (AStr ''gone'')"
    by (metis option.inject)
  from NotFoundError_message [of ?e ?r None] h1 h3
  have c2: "NotFoundError_init ?e ?r None ''message'' = Some (AStr ''not found'')"
    by simp
  from NotFoundError_message [of ?n ?r "Some ''gone''"] h4
  have c3: "NotFoundError_init ?n ?r (Some ''gone'') ''message'' = Some (AStr ''None'')"
    by blast
  from NotFoundError_message [of ?m ?r "Some ''gone''"] h5
  have c4: "NotFoundError_init ?m ?r (Some ''gone'') ''message'' = Some (AStr ''no such tenant'')"
    by (simp add: py_str_def)
  from h1 h2 h3 h4 h5 c1 c2 c3 c4 show ?thesis by blast
qed


section \<open>The models\<close>

lemma validate_field_missing:
  "kwargs (name f) = None \<Longrightarrow> default f = None
     \<Longrightarrow> validate_field V kwargs f = Inl (Missing (name f))"
  by (simp add: validate_field_def)

lemma lefts_member: "Inl e \<in> set rs \<Longrightarrow> e \<in> set (lefts rs)"
  by (induction rs rule: lefts.induct) auto

lemma BaseModel_init_missing:
  assumes "f \<in> set fs" and "kwargs (name f) = None" and "default f = None"
  shows "\<exists>errs. BaseModel_init V fs kwargs = Inl errs \<and> Missing (name f) \<in> set errs"
proof -
  let ?rs = "map (validate_field V kwargs) fs"
  from assms have "Inl (Missing (name f)) \<in> set ?rs"
    by (metis image_eqI set_map validate_field_missing)
  then have m: "Missing (name f) \<in> set (lefts ?rs)" by (rule lefts_member)
  then have "lefts ?rs \<noteq> []" by auto
  with m show ?thesis by (simp add: BaseModel_init_def Let_def)
qed

text \<open>
  C7. \<^verbatim>\<open>AWSKinesisConfig\<close> cannot be constructed without \<^verbatim>\<open>stream_name\<close> or
  without \<^verbatim>\<open>region\<close>; given both and neither of the other two, \<^verbatim>\<open>endpoint\<close> and
  \<^verbatim>\<open>partition_key_template\<close> are \<^verbatim>\<open>None\<close>. \<^verbatim>\<open>DestinationUpdateAWSSQS\<close> and
  \<^verbatim>\<open>DestinationUpdateHookdeck\<close> are constructed from no arguments, with
  \<^verbatim>\<open>topics\<close>, \<^verbatim>\<open>config\<close> and \<^verbatim>\<open>credentials\<close> all \<^verbatim>\<open>None\<close>.
\<close>

theorem models_required_and_optional:
  "(kwargs ''stream_name'' = None \<longrightarrow>
      (\<exists>errs. BaseModel_init V AWSKinesisConfig kwargs = Inl errs
         \<and> Missing ''stream_name'' \<in> set errs))
   \<and> (kwargs ''region'' = None \<longrightarrow>
      (\<exists>errs. BaseModel_init V AWSKinesisConfig kwargs = Inl errs
         \<and> Missing ''region'' \<in> set errs))
   \<and> (kwargs ''stream_name'' = Some (PStr sn) \<and> kwargs ''region'' = Some (PStr rg)
        \<and> kwargs ''endpoint'' = None \<and> kwargs ''partition_key_template'' = None \<longrightarrow>
      BaseModel_init V AWSKinesisConfig kwargs
        = Inr [(''stream_name'', PStr sn), (''region'', PStr rg),
               (''endpoint'', PNone), (''partition_key_template'', PNone)])
   \<and> BaseModel_init V DestinationUpdateAWSSQS Map.empty
        = Inr [(''topics'', PNone), (''config'', PNone), (''credentials'', PNone)]
   \<and> BaseModel_init V DestinationUpdateHookdeck Map.empty
        = Inr [(''topics'', PNone), (''config'', PNone), (''credentials'', PNone)]"
proof (intro conjI impI)
  let ?f1 = "\<lparr>name = ''stream_name'', annotation = Str, field_metadata = None, default = None\<rparr>"
  let ?f2 = "\<lparr>name = ''region'', annotation = Str, field_metadata = None, default = None\<rparr>"
  assume "kwargs ''stream_name'' = None"
  then show "\<exists>errs. BaseModel_init V AWSKinesisConfig kwargs = Inl errs
         \<and> Missing ''stream_name'' \<in> set errs"
    using BaseModel_init_missing [of ?f1 AWSKinesisConfig kwargs V]
    by (simp add: AWSKinesisConfig_def)
next
  let ?f2 = "\<lparr>name = ''region'', annotation = Str, field_metadata = None, default = None\<rparr>"
  assume "kwargs ''region'' = None"
  then show "\<exists>errs. BaseModel_init V AWSKinesisConfig kwargs = Inl errs
         \<and> Missing ''region'' \<in> set errs"
    using BaseModel_init_missing [of ?f2 AWSKinesisConfig kwargs V]
    by (simp add: AWSKinesisConfig_def)
next
  assume "kwargs ''stream_name'' = Some (PStr sn) \<and> kwargs ''region'' = Some (PStr rg)
        \<and> kwargs ''endpoint'' = None \<and> kwargs ''partition_key_template'' = None"
  then show "BaseModel_init V AWSKinesisConfig kwargs
        = Inr [(''stream_name'', PStr sn), (''region'', PStr rg),
               (''endpoint'', PNone), (''partition_key_template'', PNone)]"
    by (simp add: BaseModel_init_def AWSKinesisConfig_def validate_field_def)
next
  show "BaseModel_init V DestinationUpdateAWSSQS Map.empty
        = Inr [(''topics'', PNone), (''config'', PNone), (''credentials'', PNone)]"
    by (simp add: BaseModel_init_def DestinationUpdateAWSSQS_def validate_field_def)
next
  show "BaseModel_init V DestinationUpdateHookdeck Map.empty
        = Inr [(''topics'', PNone), (''config'', PNone), (''credentials'', PNone)]"
    by (simp add: BaseModel_init_def DestinationUpdateHookdeck_def validate_field_def)
qed

theorem models_required_and_optional_witness:
  "[''region'' \<mapsto> PStr ''eu-west-1''] ''stream_name'' = None
   \<and> (\<exists>errs. BaseModel_init (\<lambda>t v. False) AWSKinesisConfig [''region'' \<mapsto> PStr ''eu-west-1'']
          = Inl errs \<and> Missing ''stream_name'' \<in> set errs)
   \<and> [''stream_name'' \<mapsto> PStr ''events''] ''region'' = None
   \<and> (\<exists>errs. BaseModel_init (\<lambda>t v. False) AWSKinesisConfig [''stream_name'' \<mapsto> PStr ''events'']
          = Inl errs \<and> Missing ''region'' \<in> set errs)
   \<and> BaseModel_init (\<lambda>t v. False) AWSKinesisConfig
        [''stream_name'' \<mapsto> PStr ''events'', ''region'' \<mapsto> PStr ''eu-west-1'']
       = Inr [(''stream_name'', PStr ''events''), (''region'', PStr ''eu-west-1''),
              (''endpoint'', PNone), (''partition_key_template'', PNone)]"
proof -
  let ?V = "\<lambda>(t::string) (v::pyval). False"
  let ?k1 = "[''region'' \<mapsto> PStr ''eu-west-1'']"
  let ?k2 = "[''stream_name'' \<mapsto> PStr ''events'']"
  let ?k3 = "[''stream_name'' \<mapsto> PStr ''events'', ''region'' \<mapsto> PStr ''eu-west-1'']"
  have h1: "?k1 ''stream_name'' = None" by simp
  have h2: "?k2 ''region'' = None" by simp
  have h3: "?k3 ''stream_name'' = Some (PStr ''events'') \<and> ?k3 ''region'' = Some (PStr ''eu-west-1'')
        \<and> ?k3 ''endpoint'' = None \<and> ?k3 ''partition_key_template'' = None" by simp
  note m = models_required_and_optional
  from m [of ?k1 ?V] h1 have c1: "\<exists>errs. BaseModel_init ?V AWSKinesisConfig ?k1
          = Inl errs \<and> Missing ''stream_name'' \<in> set errs" by blast
  from m [of ?k2 ?V] h2 have c2: "\<exists>errs. BaseModel_init ?V AWSKinesisConfig ?k2
          = Inl errs \<and> Missing ''region'' \<in> set errs" by blast
  from m [of ?k3 ?V "''events''" "''eu-west-1''"] h3
  have c3: "BaseModel_init ?V AWSKinesisConfig ?k3
       = Inr [(''stream_name'', PStr ''events''), (''region'', PStr ''eu-west-1''),
              (''endpoint'', PNone), (''partition_key_template'', PNone)]" by blast
  from h1 h2 c1 c2 c3 show ?thesis by blast
qed

text \<open>
  C10. \<^verbatim>\<open>GetTenantRequest\<close> and \<^verbatim>\<open>GetTenantGlobals\<close> are constructed from no
  arguments, and \<^verbatim>\<open>tenant_id\<close> is then \<^verbatim>\<open>None\<close>: the model does not require the
  field its documentation calls required under AdminApiKey authentication.
\<close>

theorem GetTenant_models_without_arguments:
  "BaseModel_init V GetTenantRequest Map.empty = Inr [(''tenant_id'', PNone)]
   \<and> BaseModel_init V GetTenantGlobals Map.empty = Inr [(''tenant_id'', PNone)]"
  by (simp add: BaseModel_init_def GetTenantRequest_def GetTenantGlobals_def validate_field_def)


section \<open>The example script\<close>

lemma except_Exception_caught:
  "snd r = Some (Exception m) \<Longrightarrow> except_Exception label r = (fst r @ [Print (label @ m)], None)"
  by (simp add: except_Exception_def)

lemma except_Exception_normal:
  "snd r = None \<Longrightarrow> except_Exception label r = r"
  by (simp add: except_Exception_def)

lemma except_Exception_never_Exception:
  "snd (except_Exception label r) \<noteq> Some (Exception m)"
  by (simp add: except_Exception_def split: option.splits exn.splits)



lemma with_jwt_never_Exception: "snd (with_jwt s c jwt) \<noteq> Some (Exception m)"
  by (simp add: with_jwt_def emit_def except_Exception_never_Exception)

lemma snd_emit: "snd (emit es r) = snd r"
  by (simp add: emit_def)

lemma fst_emit: "fst (emit es r) = es @ fst r"
  by (simp add: emit_def)


lemma with_Outpost_snd:
  "snd (with_Outpost s sec url body) =
     (case Outpost_init s sec url of
        Some e \<Rightarrow> Some e
      | None \<Rightarrow> snd (body \<lparr>sdk_configuration = \<lparr>security = sec, server_url = url\<rparr>\<rparr>))"
  by (simp add: with_Outpost_def emit_def Let_def split: option.splits)


lemma except_Exception_fst_passed:
  "(\<And>m. snd r \<noteq> Some (Exception m)) \<Longrightarrow> fst (except_Exception label r) = fst r"
  by (cases "snd r") (auto simp: except_Exception_def split: exn.splits)



text \<open>
  C5. When the health check, the listing and the token request return,
  \<^verbatim>\<open>with_admin_api_key\<close> has made them in that order, the listing and the token
  request for the given tenant. If the token response is truthy and its \<^verbatim>\<open>token\<close> is a
  non-empty string, a client with that token as \<^verbatim>\<open>tenant_jwt\<close> and the same server
  URL is constructed and \<^verbatim>\<open>with_jwt\<close> runs on it; if not, no client is constructed,
  \<^verbatim>\<open>with_jwt\<close> does not run and the last line printed is
  \<^verbatim>\<open>Could not obtain tenant token.\<close>
\<close>

theorem admin_flow_order:
  assumes "health_check s c = Inr h"
    and "destinations_list s c (Some tenant_id) = Inr d"
    and "tenants_get_token s c tenant_id = Inr tr"
  shows "(is_truthy tr \<and> token tr = Some (Some tok) \<and> tok \<noteq> []
          \<and> Outpost_init s \<lparr>admin_api_key = None, tenant_jwt = Some tok\<rparr>
               (server_url (sdk_configuration c)) = None \<longrightarrow>
          fst (with_admin_api_key s c tenant_id) =
            [Print ''--- Running with Admin API Key ---'',
             HealthCheck c,
             Print ''Health check result:'', Print (shown h),
             DestinationsList c (Some tenant_id),
             Print (''Destinations listed successfully using Admin Key for tenant ''
                     @ tenant_id @ '':''),
             Print (shown d),
             TenantsGetToken c tenant_id,
             Print (''Tenant token obtained for tenant '' @ tenant_id @ '':''),
             Print (shown tr),
             Construct \<lparr>admin_api_key = None, tenant_jwt = Some tok\<rparr>
               (server_url (sdk_configuration c)),
             Enter \<lparr>sdk_configuration =
                     \<lparr>security = \<lparr>admin_api_key = None, tenant_jwt = Some tok\<rparr>,
                      server_url = server_url (sdk_configuration c)\<rparr>\<rparr>]
            @ fst (with_jwt s
                     \<lparr>sdk_configuration =
                        \<lparr>security = \<lparr>admin_api_key = None, tenant_jwt = Some tok\<rparr>,
                         server_url = server_url (sdk_configuration c)\<rparr>\<rparr> tok)
            @ [Exit \<lparr>sdk_configuration =
                      \<lparr>security = \<lparr>admin_api_key = None, tenant_jwt = Some tok\<rparr>,
                       server_url = server_url (sdk_configuration c)\<rparr>\<rparr>])
    \<and> (\<not> (is_truthy tr \<and> (\<exists>k. token tr = Some (Some k) \<and> k \<noteq> [])) \<longrightarrow>
          with_admin_api_key s c tenant_id =
            ([Print ''--- Running with Admin API Key ---'',
              HealthCheck c,
              Print ''Health check result:'', Print (shown h),
              DestinationsList c (Some tenant_id),
              Print (''Destinations listed successfully using Admin Key for tenant ''
                      @ tenant_id @ '':''),
              Print (shown d),
              TenantsGetToken c tenant_id,
              Print (''Tenant token obtained for tenant '' @ tenant_id @ '':''),
              Print (shown tr),
              Print ''Could not obtain tenant token.''], None))"
proof (intro conjI impI)
  let ?j = "\<lparr>sdk_configuration =
              \<lparr>security = \<lparr>admin_api_key = None, tenant_jwt = Some tok\<rparr>,
               server_url = server_url (sdk_configuration c)\<rparr>\<rparr>"
  assume a: "is_truthy tr \<and> token tr = Some (Some tok) \<and> tok \<noteq> []
          \<and> Outpost_init s \<lparr>admin_api_key = None, tenant_jwt = Some tok\<rparr>
               (server_url (sdk_configuration c)) = None"
  have "\<And>m. snd (with_jwt s ?j tok) \<noteq> Some (Exception m)"
    by (rule with_jwt_never_Exception)
  then have "\<And>m. snd (emit [HealthCheck c]
      (emit [Print ''Health check result:'', Print (shown h), DestinationsList c (Some tenant_id)]
        (emit [Print (''Destinations listed successfully using Admin Key for tenant ''
                       @ tenant_id @ '':''), Print (shown d), TenantsGetToken c tenant_id]
          (emit [Print (''Tenant token obtained for tenant '' @ tenant_id @ '':''), Print (shown tr)]
            (with_Outpost s \<lparr>admin_api_key = None, tenant_jwt = Some tok\<rparr>
               (server_url (sdk_configuration c)) (\<lambda>jwt_outpost. with_jwt s jwt_outpost tok))))))
      \<noteq> Some (Exception m)"
    using a by (simp add: snd_emit with_Outpost_snd)
  from except_Exception_fst_passed [OF this, of "''Error during admin operations: ''"] a assms
  show "fst (with_admin_api_key s c tenant_id) =
            [Print ''--- Running with Admin API Key ---'',
             HealthCheck c,
             Print ''Health check result:'', Print (shown h),
             DestinationsList c (Some tenant_id),
             Print (''Destinations listed successfully using Admin Key for tenant ''
                     @ tenant_id @ '':''),
             Print (shown d),
             TenantsGetToken c tenant_id,
             Print (''Tenant token obtained for tenant '' @ tenant_id @ '':''),
             Print (shown tr),
             Construct \<lparr>admin_api_key = None, tenant_jwt = Some tok\<rparr>
               (server_url (sdk_configuration c)),
             Enter ?j]
            @ fst (with_jwt s ?j tok)
            @ [Exit ?j]"
    by (simp add: with_admin_api_key_def fst_emit truthy_def with_Outpost_def Let_def)
next
  assume "\<not> (is_truthy tr \<and> (\<exists>k. token tr = Some (Some k) \<and> k \<noteq> []))"
  then have "\<not> (is_truthy tr \<and> token tr \<noteq> None \<and> truthy (the (token tr)))"
    by (cases "token tr") (auto simp: truthy_def split: option.splits)
  with assms show "with_admin_api_key s c tenant_id =
            ([Print ''--- Running with Admin API Key ---'',
              HealthCheck c,
              Print ''Health check result:'', Print (shown h),
              DestinationsList c (Some tenant_id),
              Print (''Destinations listed successfully using Admin Key for tenant ''
                      @ tenant_id @ '':''),
              Print (shown d),
              TenantsGetToken c tenant_id,
              Print (''Tenant token obtained for tenant '' @ tenant_id @ '':''),
              Print (shown tr),
              Print ''Could not obtain tenant token.''], None)"
    by (cases "is_truthy tr"; cases "token tr")
       (simp_all add: with_admin_api_key_def emit_def except_Exception_def)
qed

theorem admin_flow_order_witness:
  "health_check \<lparr>Outpost_init = (\<lambda>sec url. None),
       health_check = (\<lambda>c. Inr \<lparr>shown = ''ok'', is_truthy = True, token = None\<rparr>),
       destinations_list = (\<lambda>c t. Inr \<lparr>shown = ''[]'', is_truthy = False, token = None\<rparr>),
       tenants_get_token = (\<lambda>c t. Inr \<lparr>shown = ''token=abc'', is_truthy = True, token = Some (Some ''abc'')\<rparr>)\<rparr> \<lparr>sdk_configuration = \<lparr>security = \<lparr>admin_api_key = Some ''key'', tenant_jwt = None\<rparr>,
       server_url = ''http://h/api/v1''\<rparr>\<rparr> = Inr \<lparr>shown = ''ok'', is_truthy = True, token = None\<rparr>
   \<and> destinations_list \<lparr>Outpost_init = (\<lambda>sec url. None),
       health_check = (\<lambda>c. Inr \<lparr>shown = ''ok'', is_truthy = True, token = None\<rparr>),
       destinations_list = (\<lambda>c t. Inr \<lparr>shown = ''[]'', is_truthy = False, token = None\<rparr>),
       tenants_get_token = (\<lambda>c t. Inr \<lparr>shown = ''token=abc'', is_truthy = True, token = Some (Some ''abc'')\<rparr>)\<rparr> \<lparr>sdk_configuration = \<lparr>security = \<lparr>admin_api_key = Some ''key'', tenant_jwt = None\<rparr>,
       server_url = ''http://h/api/v1''\<rparr>\<rparr> (Some ''t1'') = Inr \<lparr>shown = ''[]'', is_truthy = False, token = None\<rparr>
   \<and> tenants_get_token \<lparr>Outpost_init = (\<lambda>sec url. None),
       health_check = (\<lambda>c. Inr \<lparr>shown = ''ok'', is_truthy = True, token = None\<rparr>),
       destinations_list = (\<lambda>c t. Inr \<lparr>shown = ''[]'', is_truthy = False, token = None\<rparr>),
       tenants_get_token = (\<lambda>c t. Inr \<lparr>shown = ''token=abc'', is_truthy = True, token = Some (Some ''abc'')\<rparr>)\<rparr> \<lparr>sdk_configuration = \<lparr>security = \<lparr>admin_api_key = Some ''key'', tenant_jwt = None\<rparr>,
       server_url = ''http://h/api/v1''\<rparr>\<rparr> ''t1'' = Inr \<lparr>shown = ''token=abc'', is_truthy = True, token = Some (Some ''abc'')\<rparr>
   \<and> fst (with_admin_api_key \<lparr>Outpost_init = (\<lambda>sec url. None),
       health_check = (\<lambda>c. Inr \<lparr>shown = ''ok'', is_truthy = True, token = None\<rparr>),
       destinations_list = (\<lambda>c t. Inr \<lparr>shown = ''[]'', is_truthy = False, token = None\<rparr>),
       tenants_get_token = (\<lambda>c t. Inr \<lparr>shown = ''token=abc'', is_truthy = True, token = Some (Some ''abc'')\<rparr>)\<rparr> \<lparr>sdk_configuration = \<lparr>security = \<lparr>admin_api_key = Some ''key'', tenant_jwt = None\<rparr>,
       server_url = ''http://h/api/v1''\<rparr>\<rparr> ''t1'') =
       [Print ''--- Running with Admin API Key ---'',
        HealthCheck \<lparr>sdk_configuration = \<lparr>security = \<lparr>admin_api_key = Some ''key'', tenant_jwt = None\<rparr>,
       server_url = ''http://h/api/v1''\<rparr>\<rparr>,
        Print ''Health check result:'', Print ''ok'',
        DestinationsList \<lparr>sdk_configuration = \<lparr>security = \<lparr>admin_api_key = Some ''key'', tenant_jwt = None\<rparr>,
       server_url = ''http://h/api/v1''\<rparr>\<rparr> (Some ''t1''),
        Print ''Destinations listed successfully using Admin Key for tenant t1:'',
        Print ''[]'',
        TenantsGetToken \<lparr>sdk_configuration = \<lparr>security = \<lparr>admin_api_key = Some ''key'', tenant_jwt = None\<rparr>,
       server_url = ''http://h/api/v1''\<rparr>\<rparr> ''t1'',
        Print ''Tenant token obtained for tenant t1:'',
        Print ''token=abc'',
        Construct \<lparr>admin_api_key = None, tenant_jwt = Some ''abc''\<rparr> ''http://h/api/v1'',
        Enter \<lparr>sdk_configuration = \<lparr>security = \<lparr>admin_api_key = None, tenant_jwt = Some ''abc''\<rparr>,
       server_url = ''http://h/api/v1''\<rparr>\<rparr>,
        Print ''--- Running with Tenant JWT ---'',
        DestinationsList \<lparr>sdk_configuration = \<lparr>security = \<lparr>admin_api_key = None, tenant_jwt = Some ''abc''\<rparr>,
       server_url = ''http://h/api/v1''\<rparr>\<rparr> None,
        Print ''Destinations listed successfully using JWT:'',
        Print ''[]'',
        Exit \<lparr>sdk_configuration = \<lparr>security = \<lparr>admin_api_key = None, tenant_jwt = Some ''abc''\<rparr>,
       server_url = ''http://h/api/v1''\<rparr>\<rparr>]
   \<and> tenants_get_token \<lparr>Outpost_init = (\<lambda>sec url. None),
       health_check = (\<lambda>c. Inr \<lparr>shown = ''ok'', is_truthy = True, token = None\<rparr>),
       destinations_list = (\<lambda>c t. Inr \<lparr>shown = ''[]'', is_truthy = False, token = None\<rparr>),
       tenants_get_token = (\<lambda>c t. Inr \<lparr>shown = ''token=None'', is_truthy = True, token = Some None\<rparr>)\<rparr> \<lparr>sdk_configuration = \<lparr>security = \<lparr>admin_api_key = Some ''key'', tenant_jwt = None\<rparr>,
       server_url = ''http://h/api/v1''\<rparr>\<rparr> ''t1'' = Inr \<lparr>shown = ''token=None'', is_truthy = True, token = Some None\<rparr>
   \<and> with_admin_api_key \<lparr>Outpost_init = (\<lambda>sec url. None),
       health_check = (\<lambda>c. Inr \<lparr>shown = ''ok'', is_truthy = True, token = None\<rparr>),
       destinations_list = (\<lambda>c t. Inr \<lparr>shown = ''[]'', is_truthy = False, token = None\<rparr>),
       tenants_get_token = (\<lambda>c t. Inr \<lparr>shown = ''token=None'', is_truthy = True, token = Some None\<rparr>)\<rparr> \<lparr>sdk_configuration = \<lparr>security = \<lparr>admin_api_key = Some ''key'', tenant_jwt = None\<rparr>,
       server_url = ''http://h/api/v1''\<rparr>\<rparr> ''t1'' =
       ([Print ''--- Running with Admin API Key ---'',
        HealthCheck \<lparr>sdk_configuration = \<lparr>security = \<lparr>admin_api_key = Some ''key'', tenant_jwt = None\<rparr>,
       server_url = ''http://h/api/v1''\<rparr>\<rparr>,
        Print ''Health check result:'', Print ''ok'',
        DestinationsList \<lparr>sdk_configuration = \<lparr>security = \<lparr>admin_api_key = Some ''key'', tenant_jwt = None\<rparr>,
       server_url = ''http://h/api/v1''\<rparr>\<rparr> (Some ''t1''),
        Print ''Destinations listed successfully using Admin Key for tenant t1:'',
        Print ''[]'',
        TenantsGetToken \<lparr>sdk_configuration = \<lparr>security = \<lparr>admin_api_key = Some ''key'', tenant_jwt = None\<rparr>,
       server_url = ''http://h/api/v1''\<rparr>\<rparr> ''t1'',
        Print ''Tenant token obtained for tenant t1:'',
        Print ''token=None'',
        Print ''Could not obtain tenant token.''], None)"
proof -
  let ?c = "\<lparr>sdk_configuration = \<lparr>security = \<lparr>admin_api_key = Some ''key'', tenant_jwt = None\<rparr>,
       server_url = ''http://h/api/v1''\<rparr>\<rparr>"
  let ?j = "\<lparr>sdk_configuration = \<lparr>security = \<lparr>admin_api_key = None, tenant_jwt = Some ''abc''\<rparr>,
       server_url = ''http://h/api/v1''\<rparr>\<rparr>"
  let ?sA = "\<lparr>Outpost_init = (\<lambda>sec url. None),
       health_check = (\<lambda>c. Inr \<lparr>shown = ''ok'', is_truthy = True, token = None\<rparr>),
       destinations_list = (\<lambda>c t. Inr \<lparr>shown = ''[]'', is_truthy = False, token = None\<rparr>),
       tenants_get_token = (\<lambda>c t. Inr \<lparr>shown = ''token=abc'', is_truthy = True, token = Some (Some ''abc'')\<rparr>)\<rparr>"
  let ?sB = "\<lparr>Outpost_init = (\<lambda>sec url. None),
       health_check = (\<lambda>c. Inr \<lparr>shown = ''ok'', is_truthy = True, token = None\<rparr>),
       destinations_list = (\<lambda>c t. Inr \<lparr>shown = ''[]'', is_truthy = False, token = None\<rparr>),
       tenants_get_token = (\<lambda>c t. Inr \<lparr>shown = ''token=None'', is_truthy = True, token = Some None\<rparr>)\<rparr>"
  have a: "health_check ?sA ?c = Inr \<lparr>shown = ''ok'', is_truthy = True, token = None\<rparr>"
    "destinations_list ?sA ?c (Some ''t1'') = Inr \<lparr>shown = ''[]'', is_truthy = False, token = None\<rparr>"
    "tenants_get_token ?sA ?c ''t1'' = Inr \<lparr>shown = ''token=abc'', is_truthy = True, token = Some (Some ''abc'')\<rparr>" by simp_all
  have a': "is_truthy \<lparr>shown = ''token=abc'', is_truthy = True, token = Some (Some ''abc'')\<rparr> \<and> token \<lparr>shown = ''token=abc'', is_truthy = True, token = Some (Some ''abc'')\<rparr> = Some (Some ''abc'') \<and> ''abc'' \<noteq> []
     \<and> Outpost_init ?sA \<lparr>admin_api_key = None, tenant_jwt = Some ''abc''\<rparr>
          (server_url (sdk_configuration ?c)) = None" by simp
  have b: "health_check ?sB ?c = Inr \<lparr>shown = ''ok'', is_truthy = True, token = None\<rparr>"
    "destinations_list ?sB ?c (Some ''t1'') = Inr \<lparr>shown = ''[]'', is_truthy = False, token = None\<rparr>"
    "tenants_get_token ?sB ?c ''t1'' = Inr \<lparr>shown = ''token=None'', is_truthy = True, token = Some None\<rparr>" by simp_all
  have b': "\<not> (is_truthy \<lparr>shown = ''token=None'', is_truthy = True, token = Some None\<rparr> \<and> (\<exists>k. token \<lparr>shown = ''token=None'', is_truthy = True, token = Some None\<rparr> = Some (Some k) \<and> k \<noteq> []))"
    by simp
  have j: "fst (with_jwt ?sA ?j ''abc'') =
     [Print ''--- Running with Tenant JWT ---'', DestinationsList ?j None,
      Print ''Destinations listed successfully using JWT:'', Print ''[]'']"
    by (simp add: with_jwt_def emit_def except_Exception_def)
  from admin_flow_order [OF a, where tok = "''abc''"] a'
  have c1: "fst (with_admin_api_key ?sA ?c ''t1'') =
      [Print ''--- Running with Admin API Key ---'',
        HealthCheck ?c,
        Print ''Health check result:'', Print ''ok'',
        DestinationsList ?c (Some ''t1''),
        Print ''Destinations listed successfully using Admin Key for tenant t1:'',
        Print ''[]'',
        TenantsGetToken ?c ''t1'',
        Print ''Tenant token obtained for tenant t1:'',
        Print ''token=abc'',
        Construct \<lparr>admin_api_key = None, tenant_jwt = Some ''abc''\<rparr> ''http://h/api/v1'',
        Enter ?j,
        Print ''--- Running with Tenant JWT ---'',
        DestinationsList ?j None,
        Print ''Destinations listed successfully using JWT:'',
        Print ''[]'',
        Exit ?j]"
    by (simp add: j)
  from admin_flow_order [OF b] b'
  have c2: "with_admin_api_key ?sB ?c ''t1'' =
      ([Print ''--- Running with Admin API Key ---'',
        HealthCheck ?c,
        Print ''Health check result:'', Print ''ok'',
        DestinationsList ?c (Some ''t1''),
        Print ''Destinations listed successfully using Admin Key for tenant t1:'',
        Print ''[]'',
        TenantsGetToken ?c ''t1'',
        Print ''Tenant token obtained for tenant t1:'',
        Print ''token=None'',
        Print ''Could not obtain tenant token.''], None)"
    by simp
  from a b(3) c1 c2 show ?thesis by simp
qed

text \<open>
  C6. \<^verbatim>\<open>run\<close> prints the error naming the first of \<^verbatim>\<open>ADMIN_API_KEY\<close>,
  \<^verbatim>\<open>TENANT_ID\<close>, \<^verbatim>\<open>SERVER_URL\<close> that is unset or empty and exits with status 1,
  having constructed no client; with all three set, the first thing it does is to
  construct the client with the admin key against \<^verbatim>\<open>SERVER_URL\<close> followed by
  \<^verbatim>\<open>/api/v1\<close>.
\<close>

theorem run_checks_environment:
  "((load_dotenv environ ''ADMIN_API_KEY'' = None \<or> load_dotenv environ ''ADMIN_API_KEY'' = Some [])
      \<longrightarrow> run s load_dotenv environ = ([Print ''Error: ADMIN_API_KEY not set.''], SystemExit 1))
   \<and> (truthy (load_dotenv environ ''ADMIN_API_KEY'')
        \<and> (load_dotenv environ ''TENANT_ID'' = None \<or> load_dotenv environ ''TENANT_ID'' = Some [])
      \<longrightarrow> run s load_dotenv environ = ([Print ''Error: TENANT_ID not set.''], SystemExit 1))
   \<and> (truthy (load_dotenv environ ''ADMIN_API_KEY'') \<and> truthy (load_dotenv environ ''TENANT_ID'')
        \<and> (load_dotenv environ ''SERVER_URL'' = None \<or> load_dotenv environ ''SERVER_URL'' = Some [])
      \<longrightarrow> run s load_dotenv environ = ([Print ''Error: SERVER_URL not set.''], SystemExit 1))
   \<and> (load_dotenv environ ''ADMIN_API_KEY'' = Some k \<and> k \<noteq> []
        \<and> load_dotenv environ ''TENANT_ID'' = Some t \<and> t \<noteq> []
        \<and> load_dotenv environ ''SERVER_URL'' = Some u \<and> u \<noteq> []
      \<longrightarrow> (\<exists>rest. fst (run s load_dotenv environ)
             = Construct \<lparr>admin_api_key = Some k, tenant_jwt = None\<rparr> (u @ ''/api/v1'') # rest))"
  by (auto simp: run_def truthy_def Let_def with_Outpost_def emit_def split: option.splits)

theorem run_checks_environment_witness:
  "run \<lparr>Outpost_init = (\<lambda>sec url. None),
       health_check = (\<lambda>c. Inr \<lparr>shown = ''ok'', is_truthy = True, token = None\<rparr>),
       destinations_list = (\<lambda>c t. Inr \<lparr>shown = ''[]'', is_truthy = False, token = None\<rparr>),
       tenants_get_token = (\<lambda>c t. Inr \<lparr>shown = ''token=abc'', is_truthy = True, token = Some (Some ''abc'')\<rparr>)\<rparr> (\<lambda>e. e) Map.empty
       = ([Print ''Error: ADMIN_API_KEY not set.''], SystemExit 1)
   \<and> run \<lparr>Outpost_init = (\<lambda>sec url. None),
       health_check = (\<lambda>c. Inr \<lparr>shown = ''ok'', is_truthy = True, token = None\<rparr>),
       destinations_list = (\<lambda>c t. Inr \<lparr>shown = ''[]'', is_truthy = False, token = None\<rparr>),
       tenants_get_token = (\<lambda>c t. Inr \<lparr>shown = ''token=abc'', is_truthy = True, token = Some (Some ''abc'')\<rparr>)\<rparr> (\<lambda>e. e) [''ADMIN_API_KEY'' \<mapsto> ''key'', ''TENANT_ID'' \<mapsto> '''']
       = ([Print ''Error: TENANT_ID not set.''], SystemExit 1)
   \<and> run \<lparr>Outpost_init = (\<lambda>sec url. None),
       health_check = (\<lambda>c. Inr \<lparr>shown = ''ok'', is_truthy = True, token = None\<rparr>),
       destinations_list = (\<lambda>c t. Inr \<lparr>shown = ''[]'', is_truthy = False, token = None\<rparr>),
       tenants_get_token = (\<lambda>c t. Inr \<lparr>shown = ''token=abc'', is_truthy = True, token = Some (Some ''abc'')\<rparr>)\<rparr> (\<lambda>e. e) [''ADMIN_API_KEY'' \<mapsto> ''key'', ''TENANT_ID'' \<mapsto> ''t1'']
       = ([Print ''Error: SERVER_URL not set.''], SystemExit 1)
   \<and> (\<exists>rest. fst (run \<lparr>Outpost_init = (\<lambda>sec url. None),
       health_check = (\<lambda>c. Inr \<lparr>shown = ''ok'', is_truthy = True, token = None\<rparr>),
       destinations_list = (\<lambda>c t. Inr \<lparr>shown = ''[]'', is_truthy = False, token = None\<rparr>),
       tenants_get_token = (\<lambda>c t. Inr \<lparr>shown = ''token=abc'', is_truthy = True, token = Some (Some ''abc'')\<rparr>)\<rparr> (\<lambda>e. e) [''ADMIN_API_KEY'' \<mapsto> ''key'', ''TENANT_ID'' \<mapsto> ''t1'',
        ''SERVER_URL'' \<mapsto> ''http://h''])
       = Construct \<lparr>admin_api_key = Some ''key'', tenant_jwt = None\<rparr> ''http://h/api/v1'' # rest)"
proof -
  let ?s = "\<lparr>Outpost_init = (\<lambda>sec url. None),
       health_check = (\<lambda>c. Inr \<lparr>shown = ''ok'', is_truthy = True, token = None\<rparr>),
       destinations_list = (\<lambda>c t. Inr \<lparr>shown = ''[]'', is_truthy = False, token = None\<rparr>),
       tenants_get_token = (\<lambda>c t. Inr \<lparr>shown = ''token=abc'', is_truthy = True, token = Some (Some ''abc'')\<rparr>)\<rparr>"
  let ?e2 = "[''ADMIN_API_KEY'' \<mapsto> ''key'', ''TENANT_ID'' \<mapsto> '''']"
  let ?e3 = "[''ADMIN_API_KEY'' \<mapsto> ''key'', ''TENANT_ID'' \<mapsto> ''t1'']"
  let ?e4 = "[''ADMIN_API_KEY'' \<mapsto> ''key'', ''TENANT_ID'' \<mapsto> ''t1'',
        ''SERVER_URL'' \<mapsto> ''http://h'']"
  note t = run_checks_environment [where s = ?s and load_dotenv = "\<lambda>e. e"]
  have h1: "(Map.empty :: string \<rightharpoonup> string) ''ADMIN_API_KEY'' = None" by simp
  have h2: "truthy (?e2 ''ADMIN_API_KEY'') \<and> ?e2 ''TENANT_ID'' = Some []"
    by (simp add: truthy_def)
  have h3: "truthy (?e3 ''ADMIN_API_KEY'') \<and> truthy (?e3 ''TENANT_ID'')
     \<and> ?e3 ''SERVER_URL'' = None" by (simp add: truthy_def)
  have h4: "?e4 ''ADMIN_API_KEY'' = Some ''key'' \<and> ''key'' \<noteq> []
     \<and> ?e4 ''TENANT_ID'' = Some ''t1'' \<and> ''t1'' \<noteq> []
     \<and> ?e4 ''SERVER_URL'' = Some ''http://h'' \<and> ''http://h'' \<noteq> []" by simp
  from t [where environ = Map.empty] h1
  have c1: "run ?s (\<lambda>e. e) Map.empty = ([Print ''Error: ADMIN_API_KEY not set.''], SystemExit 1)"
    by blast
  from t [where environ = ?e2] h2
  have c2: "run ?s (\<lambda>e. e) ?e2 = ([Print ''Error: TENANT_ID not set.''], SystemExit 1)"
    by blast
  from t [where environ = ?e3] h3
  have c3: "run ?s (\<lambda>e. e) ?e3 = ([Print ''Error: SERVER_URL not set.''], SystemExit 1)"
    by blast
  from t [where environ = ?e4 and k = "''key''" and t = "''t1''" and u = "''http://h''"] h4
  have c4: "\<exists>rest. fst (run ?s (\<lambda>e. e) ?e4)
       = Construct \<lparr>admin_api_key = Some ''key'', tenant_jwt = None\<rparr> (''http://h'' @ ''/api/v1'') # rest"
    by blast
  from c1 c2 c3 c4 show ?thesis by simp
qed

end
